theory Spec2Isabelle
  imports Main
begin

section \<open>Mock RAOIDC provider: configuration and keys\<close>

text \<open>
  The provider (routes/auth/raoidc) reads its keys and identifiers from
  \<^verbatim>\<open>serverEnvironment\<close>. RSA keys are symbolic: the number names the key pair, so a
  private key opens what was encrypted with the public key of the same number and
  nothing else.
\<close>

datatype rsa_key = PublicKey nat | PrivateKey nat

record environment =
  AUTH_ENABLE_STUB_LOGIN :: bool
  AUTH_RAOIDC_CLIENT_ID :: string
  AUTH_RAOIDC_ISSUER :: string
  AUTH_SERVER_PUBLIC_KEY :: rsa_key
  AUTH_SERVER_PRIVATE_KEY :: rsa_key
  AUTH_CLIENT_PUBLIC_KEY :: rsa_key

text \<open>\<^verbatim>\<open>HttpStatusCodes.BAD_REQUEST\<close> of \<^verbatim>\<open>~/utils/http-status-codes\<close>.\<close>

definition BAD_REQUEST :: nat where
  "BAD_REQUEST = 400"

text \<open>\<^verbatim>\<open>const ALLOWED_CALLBACKS = ['/auth/callback']\<close>\<close>

definition ALLOWED_CALLBACKS :: "string list" where
  "ALLOWED_CALLBACKS = [''/auth/callback'']"

section \<open>Tokens: claims, signing, encryption\<close>

text \<open>
  The registered claims of a JWT payload, each absent until its setter runs, and the
  object given to \<^verbatim>\<open>new SignJWT(...)\<close> as a list of custom claims. Times are unix
  timestamps in seconds.
\<close>

record jwt_payload =
  aud :: "string option"
  exp :: "int option"
  iat :: "int option"
  iss :: "string option"
  jti :: "string option"
  nbf :: "int option"
  sub :: "string option"
  custom :: "(string \<times> string) list"

text \<open>The key id is the MD5 hex digest of a public key, kept symbolic.\<close>

datatype key_id = Md5Hex rsa_key

datatype jws_header = JwsHeader (jws_alg: string) (kid: key_id)

datatype jwe_header = JweHeader (jwe_alg: string) (enc: string)

text \<open>The \<^verbatim>\<open>SignJWT\<close> builder of jose: a payload and the protected header.\<close>

record sign_jwt =
  protectedHeader :: "jws_header option"
  payload :: jwt_payload

text \<open>A compact JWS: header, payload and the private key that signed them.\<close>

datatype signed_jwt = SignedJwt (jws_header: "jws_header option") (jws_payload: jwt_payload) (signed_with: rsa_key)

text \<open>A compact JWE: header, the public key the content key is wrapped with, the plaintext.\<close>

datatype compact_jwe = CompactJwe (jwe_header: jwe_header) (encrypted_for: rsa_key) (plaintext: signed_jwt)

definition new_SignJWT :: "(string \<times> string) list \<Rightarrow> sign_jwt" where
  "new_SignJWT claims =
     \<lparr>protectedHeader = None,
      payload = \<lparr>aud = None, exp = None, iat = None, iss = None, jti = None, nbf = None,
                 sub = None, custom = claims\<rparr>\<rparr>"

definition setProtectedHeader :: "jws_header \<Rightarrow> sign_jwt \<Rightarrow> sign_jwt" where
  "setProtectedHeader h b = b\<lparr>protectedHeader := Some h\<rparr>"

definition setAudience :: "string \<Rightarrow> sign_jwt \<Rightarrow> sign_jwt" where
  "setAudience a b = b\<lparr>payload := (payload b)\<lparr>aud := Some a\<rparr>\<rparr>"

text \<open>
  jose resolves a time span string against the current unix timestamp, which each setter
  reads for itself; the reading is the first argument. \<^verbatim>\<open>'20m'\<close> is 20 * 60 seconds
  and \<^verbatim>\<open>'30s ago'\<close> is -30 seconds.
\<close>

definition secs_20m :: int where
  "secs_20m = 20 * 60"

definition secs_30s_ago :: int where
  "secs_30s_ago = - 30"

definition setExpirationTime :: "int \<Rightarrow> int \<Rightarrow> sign_jwt \<Rightarrow> sign_jwt" where
  "setExpirationTime now span b = b\<lparr>payload := (payload b)\<lparr>exp := Some (now + span)\<rparr>\<rparr>"

definition setIssuedAt :: "int \<Rightarrow> sign_jwt \<Rightarrow> sign_jwt" where
  "setIssuedAt now b = b\<lparr>payload := (payload b)\<lparr>iat := Some now\<rparr>\<rparr>"

definition setIssuer :: "string \<Rightarrow> sign_jwt \<Rightarrow> sign_jwt" where
  "setIssuer i b = b\<lparr>payload := (payload b)\<lparr>iss := Some i\<rparr>\<rparr>"

definition setJti :: "string \<Rightarrow> sign_jwt \<Rightarrow> sign_jwt" where
  "setJti j b = b\<lparr>payload := (payload b)\<lparr>jti := Some j\<rparr>\<rparr>"

definition setNotBefore :: "int \<Rightarrow> int \<Rightarrow> sign_jwt \<Rightarrow> sign_jwt" where
  "setNotBefore now span b = b\<lparr>payload := (payload b)\<lparr>nbf := Some (now + span)\<rparr>\<rparr>"

definition setSubject :: "string \<Rightarrow> sign_jwt \<Rightarrow> sign_jwt" where
  "setSubject s b = b\<lparr>payload := (payload b)\<lparr>sub := Some s\<rparr>\<rparr>"

definition sign :: "rsa_key \<Rightarrow> sign_jwt \<Rightarrow> signed_jwt" where
  "sign k b = SignedJwt (protectedHeader b) (payload b) k"

text \<open>\<^verbatim>\<open>new CompactEncrypt(plaintext).setProtectedHeader(h).encrypt(key)\<close>\<close>

definition compactEncrypt :: "jwe_header \<Rightarrow> rsa_key \<Rightarrow> signed_jwt \<Rightarrow> compact_jwe" where
  "compactEncrypt h k p = CompactJwe h k p"

definition generatePublicKeyId :: "environment \<Rightarrow> key_id" where
  "generatePublicKeyId env = Md5Hex (AUTH_SERVER_PUBLIC_KEY env)"

text \<open>The three clock readings taken while one token is built, in the order of the calls.\<close>

record clock_reads =
  at_setExpirationTime :: int
  at_setIssuedAt :: int
  at_setNotBefore :: int

definition generateAccessToken :: "environment \<Rightarrow> clock_reads \<Rightarrow> string \<Rightarrow> compact_jwe" where
  "generateAccessToken env clk nonce =
     (let signedAccessToken =
        sign (AUTH_SERVER_PRIVATE_KEY env)
          (setSubject ''00000000-0000-0000-0000-000000000000''
          (setNotBefore (at_setNotBefore clk) secs_30s_ago
          (setJti ''00000000-0000-0000-0000-000000000000''
          (setIssuer (AUTH_RAOIDC_ISSUER env)
          (setIssuedAt (at_setIssuedAt clk)
          (setExpirationTime (at_setExpirationTime clk) secs_20m
          (setAudience (AUTH_RAOIDC_CLIENT_ID env)
          (setProtectedHeader (JwsHeader ''RS256'' (generatePublicKeyId env))
          (new_SignJWT [])))))))))
      in compactEncrypt (JweHeader ''RSA-OAEP-256'' ''A256GCM'') (AUTH_SERVER_PUBLIC_KEY env)
           signedAccessToken)"

definition generateIdToken :: "environment \<Rightarrow> clock_reads \<Rightarrow> string \<Rightarrow> string \<Rightarrow> compact_jwe" where
  "generateIdToken env clk locale nonce =
     (let idTokenClaims = [(''locale'', locale), (''nonce'', nonce)];
          signedIdToken =
        sign (AUTH_SERVER_PRIVATE_KEY env)
          (setSubject ''00000000-0000-0000-0000-000000000000''
          (setNotBefore (at_setNotBefore clk) secs_30s_ago
          (setJti ''00000000-0000-0000-0000-000000000000''
          (setIssuer (AUTH_RAOIDC_ISSUER env)
          (setIssuedAt (at_setIssuedAt clk)
          (setExpirationTime (at_setExpirationTime clk) secs_20m
          (setAudience (AUTH_RAOIDC_CLIENT_ID env)
          (setProtectedHeader (JwsHeader ''RS256'' (generatePublicKeyId env))
          (new_SignJWT idTokenClaims)))))))))
      in compactEncrypt (JweHeader ''RSA-OAEP-256'' ''A256GCM'') (AUTH_CLIENT_PUBLIC_KEY env)
           signedIdToken)"

definition generateUserinfoToken ::
  "environment \<Rightarrow> clock_reads \<Rightarrow> string \<Rightarrow> string \<Rightarrow> string \<Rightarrow> compact_jwe" where
  "generateUserinfoToken env clk birthdate locale sin =
     (let keyId = generatePublicKeyId env;
          userInfoTokenClaims = [(''birthdate'', birthdate), (''locale'', locale), (''sin'', sin)];
          userinfoToken =
        sign (AUTH_SERVER_PRIVATE_KEY env)
          (setSubject ''00000000-0000-0000-0000-000000000000''
          (setNotBefore (at_setNotBefore clk) secs_30s_ago
          (setJti ''00000000-0000-0000-0000-000000000000''
          (setIssuer (AUTH_RAOIDC_ISSUER env)
          (setIssuedAt (at_setIssuedAt clk)
          (setExpirationTime (at_setExpirationTime clk) secs_20m
          (setAudience (AUTH_RAOIDC_CLIENT_ID env)
          (setProtectedHeader (JwsHeader ''RS256'' keyId)
          (new_SignJWT userInfoTokenClaims)))))))))
      in compactEncrypt (JweHeader ''RSA-OAEP-256'' ''A256GCM'') (AUTH_CLIENT_PUBLIC_KEY env)
           userinfoToken)"

section \<open>HTTP requests and responses\<close>

text \<open>
  A request as the handlers read it: the origin of its URL, the query string
  (\<^verbatim>\<open>new URL(request.url).searchParams\<close>) and the form body
  (\<^verbatim>\<open>request.formData()\<close>, each value after \<^verbatim>\<open>toString()\<close>), both in order.
\<close>

record request =
  origin :: string
  searchParams :: "(string \<times> string) list"
  formData :: "(string \<times> string) list"

text \<open>\<^verbatim>\<open>get(name)\<close> gives the first value with that name, or null.\<close>

definition get_param :: "(string \<times> string) list \<Rightarrow> string \<Rightarrow> string option" where
  "get_param ps name = map_of ps name"

text \<open>A string or null in a condition: null and the empty string are falsy.\<close>

definition truthy :: "string option \<Rightarrow> bool" where
  "truthy v = (case v of None \<Rightarrow> False | Some x \<Rightarrow> x \<noteq> [])"

text \<open>A string or null in a template literal: null prints as \<^verbatim>\<open>null\<close>.\<close>

definition js_string :: "string option \<Rightarrow> string" where
  "js_string v = (case v of None \<Rightarrow> ''null'' | Some x \<Rightarrow> x)"

record token_response =
  token_type :: string
  access_token :: compact_jwe
  id_token :: compact_jwe
  expires_in :: nat

datatype json =
    ErrorJson string
  | TokenJson token_response
  | MessageJson string

text \<open>
  \<^verbatim>\<open>Response.json(body, { status })\<close>, with status 200 when none is given, and a
  redirect response with its Location and status.
\<close>

datatype response = JsonResponse json nat | RedirectResponse string nat

definition Response_json :: "json \<Rightarrow> response" where
  "Response_json body = JsonResponse body 200"

text \<open>
  \<^verbatim>\<open>redirect(url)\<close> of react-router builds a 302 and sets its Location with
  \<^verbatim>\<open>headers.set("Location", url)\<close>. \<^verbatim>\<open>Headers.set\<close> first strips the HTTP whitespace
  (tab, line feed, carriage return, space) at both ends of the value and then throws a
  TypeError when what is left holds a NUL, a line feed or a carriage return. A character
  is a code unit up to 255, so the value is always a byte string.
\<close>

datatype js_error = TypeError

definition http_whitespace :: "char \<Rightarrow> bool" where
  "http_whitespace ch = (ch = CHR 0x09 \<or> ch = CHR 0x0A \<or> ch = CHR 0x0D \<or> ch = CHR 0x20)"

definition normalize_header_value :: "string \<Rightarrow> string" where
  "normalize_header_value v = rev (dropWhile http_whitespace (rev (dropWhile http_whitespace v)))"

definition valid_header_value :: "string \<Rightarrow> bool" where
  "valid_header_value v = (CHR 0x00 \<notin> set v \<and> CHR 0x0A \<notin> set v \<and> CHR 0x0D \<notin> set v)"

definition redirect :: "string \<Rightarrow> js_error + response" where
  "redirect url =
     (let location = normalize_header_value url
      in if valid_header_value location then Inr (RedirectResponse location 302)
         else Inl TypeError)"

definition getAllowedCallbacks :: "request \<Rightarrow> string list" where
  "getAllowedCallbacks req = map (\<lambda>allowedCallback. origin req @ allowedCallback) ALLOWED_CALLBACKS"

section \<open>The authorization code cache and its timers\<close>

record token_set =
  accessToken :: compact_jwe
  idToken :: compact_jwe

text \<open>
  The module-level \<^verbatim>\<open>tokenCache\<close> map and the callbacks that \<^verbatim>\<open>setTimeout\<close> has
  pending: each is \<^verbatim>\<open>() => tokenCache.delete(code)\<close>, kept as the time in
  milliseconds at which it is due and the code it deletes, in scheduling order.
\<close>

record provider_state =
  tokenCache :: "string \<rightharpoonup> token_set"
  timers :: "(nat \<times> string) list"

definition setTimeout_delete :: "nat \<Rightarrow> string \<Rightarrow> nat \<Rightarrow> provider_state \<Rightarrow> provider_state" where
  "setTimeout_delete now code delay s = s\<lparr>timers := timers s @ [(now + delay, code)]\<rparr>"

text \<open>
  Modelled from the spec: \<^verbatim>\<open>randomString\<close> of \<^verbatim>\<open>~/utils/string-utils\<close> is not among
  the sources. The spec calls its result a freshly generated high-entropy code of 32
  characters of randomness; here it is \<open>len\<close> characters drawn from a random source.
\<close>

definition randomString :: "nat \<Rightarrow> (nat \<Rightarrow> char) \<Rightarrow> string" where
  "randomString len rnd = map rnd [0..<len]"

text \<open>What one authorize request draws from outside: randomness and the clock.\<close>

record authorize_effects =
  random :: "nat \<Rightarrow> char"
  access_clock :: clock_reads
  id_clock :: clock_reads

section \<open>The authorize and token endpoints\<close>

text \<open>
  Both handlers touch the cache in one synchronous block after their last \<^verbatim>\<open>await\<close>;
  \<open>now\<close> is the time in milliseconds at which that block runs. Past its truthiness check
  a parameter is a string, and \<open>js_string\<close> gives that string. The authorize handler
  returns a response or throws what \<^verbatim>\<open>redirect\<close> throws, after the cache was written.
\<close>

definition handleAuthorizeRequest ::
  "environment \<Rightarrow> authorize_effects \<Rightarrow> nat \<Rightarrow> request \<Rightarrow> provider_state
     \<Rightarrow> (js_error + response) \<times> provider_state" where
  "handleAuthorizeRequest env eff now req s =
     (let allowedRedirectUris = getAllowedCallbacks req;
          clientId = get_param (searchParams req) ''client_id'';
          nonce = get_param (searchParams req) ''nonce'';
          redirectUri = get_param (searchParams req) ''redirect_uri'';
          scope = get_param (searchParams req) ''scope'';
          state = get_param (searchParams req) ''state''
      in if clientId \<noteq> Some (AUTH_RAOIDC_CLIENT_ID env)
           then (Inr (JsonResponse (ErrorJson ''invalid_client_id'') BAD_REQUEST), s)
         else if \<not> truthy nonce
           then (Inr (JsonResponse (ErrorJson ''invalid_nonce'') BAD_REQUEST), s)
         else if truthy redirectUri \<and> js_string redirectUri \<notin> set allowedRedirectUris
           then (Inr (JsonResponse (ErrorJson ''invalid_redirect_uri'') BAD_REQUEST), s)
         else if \<not> truthy scope
           then (Inr (JsonResponse (ErrorJson ''invalid_scope'') BAD_REQUEST), s)
         else if \<not> truthy state
           then (Inr (JsonResponse (ErrorJson ''invalid_state'') BAD_REQUEST), s)
         else
           (let authCode = randomString 32 (random eff);
                accessToken = generateAccessToken env (access_clock eff) (js_string nonce);
                idToken = generateIdToken env (id_clock eff) ''en-CA'' (js_string nonce);
                s1 = s\<lparr>tokenCache := (tokenCache s)(authCode \<mapsto>
                        \<lparr>accessToken = accessToken, idToken = idToken\<rparr>)\<rparr>;
                s2 = setTimeout_delete now authCode 30000 s1
            in (redirect (js_string redirectUri @ ''?code='' @ authCode @ ''&state='' @ js_string state),
                s2)))"

definition handleTokenRequest ::
  "environment \<Rightarrow> nat \<Rightarrow> request \<Rightarrow> provider_state \<Rightarrow> response \<times> provider_state" where
  "handleTokenRequest env now req s =
     (let allowedRedirectUris = getAllowedCallbacks req;
          clientAssertion = get_param (formData req) ''client_assertion'';
          clientAssertionType = get_param (formData req) ''client_assertion_type'';
          clientId = get_param (formData req) ''client_id'';
          authCode = get_param (formData req) ''code'';
          grantType = get_param (formData req) ''grant_type'';
          redirectUri = get_param (formData req) ''redirect_uri''
      in if clientAssertionType \<noteq> Some ''urn:ietf:params:oauth:client-assertion-type:jwt-bearer''
           then (JsonResponse (ErrorJson ''invalid_client_assertion_type'') BAD_REQUEST, s)
         else if clientId \<noteq> Some (AUTH_RAOIDC_CLIENT_ID env)
           then (JsonResponse (ErrorJson ''invalid_client'') BAD_REQUEST, s)
         else if \<not> truthy clientAssertion
           then (JsonResponse (ErrorJson ''invalid_client_assertion'') BAD_REQUEST, s)
         else if \<not> truthy authCode
           then (JsonResponse (ErrorJson ''invalid_code'') BAD_REQUEST, s)
         else if grantType \<noteq> Some ''authorization_code''
           then (JsonResponse (ErrorJson ''invalid_grant_type'') BAD_REQUEST, s)
         else if truthy redirectUri \<and> js_string redirectUri \<notin> set allowedRedirectUris
           then (JsonResponse (ErrorJson ''invalid_redirect_uri'') BAD_REQUEST, s)
         else
           (let tokenSet = tokenCache s (js_string authCode);
                s1 = setTimeout_delete now (js_string authCode) 30000 s
            in case tokenSet of
                 None \<Rightarrow> (JsonResponse (ErrorJson ''invalid_auth_code'') BAD_REQUEST, s1)
               | Some ts \<Rightarrow>
                   (Response_json (TokenJson
                      \<lparr>token_type = ''Bearer'', access_token = accessToken ts,
                       id_token = idToken ts, expires_in = 5 * 60\<rparr>), s1)))"

section \<open>The event loop\<close>

text \<open>
  Before a handler's block runs at time \<open>now\<close>, every pending callback that is due by
  then has run, in scheduling order, and is no longer pending.
\<close>

definition run_timers :: "nat \<Rightarrow> provider_state \<Rightarrow> provider_state" where
  "run_timers now s =
     \<lparr>tokenCache = fold (\<lambda>(due, code) m. m(code := None))
                      (filter (\<lambda>(due, code). due \<le> now) (timers s)) (tokenCache s),
      timers = filter (\<lambda>(due, code). \<not> due \<le> now) (timers s)\<rparr>"

datatype event =
    GetAuthorize nat authorize_effects request
  | PostToken nat request

fun deliver ::
  "environment \<Rightarrow> event \<Rightarrow> provider_state \<Rightarrow> (js_error + response) \<times> provider_state" where
  "deliver env (GetAuthorize now eff req) s = handleAuthorizeRequest env eff now req (run_timers now s)"
| "deliver env (PostToken now req) s =
     (let (r, s1) = handleTokenRequest env now req (run_timers now s) in (Inr r, s1))"

fun serve ::
  "environment \<Rightarrow> event list \<Rightarrow> provider_state \<Rightarrow> (js_error + response) list \<times> provider_state" where
  "serve env [] s = ([], s)"
| "serve env (e # es) s =
     (let (r, s1) = deliver env e s; (rs, s2) = serve env es s1 in (r # rs, s2))"

definition initial_state :: provider_state where
  "initial_state = \<lparr>tokenCache = Map.empty, timers = []\<rparr>"



section \<open>The callback route of the relying party\<close>

record login_state =
  codeVerifier :: string
  nonce :: string
  returnUrl :: "string option"
  state :: string

record stublogin_state =
  birthdate :: "string option"
  locale' :: "string option"
  sin :: "string option"

text \<open>\<^verbatim>\<open>session.authState\<close>: accessToken, idTokenClaims, userinfoTokenClaims.\<close>

datatype auth_state =
  AuthState (auth_accessToken: string) (idTokenClaims: jwt_payload) (userinfoTokenClaims: jwt_payload)

record session =
  authState :: "auth_state option"
  letterState :: "(string \<times> string \<times> string) list option"
  loginState :: "login_state option"
  stubloginState :: "stublogin_state option"

text \<open>
  \<^verbatim>\<open>raoidcClient.handleCallbackRequest\<close> lives in \<^verbatim>\<open>~/.server/auth/raoidc-client\<close>, which is
  not among the sources: the route takes it as a parameter, from the arguments of the
  call (request, codeVerifier, nonce, state, callback URL, opts) to the token set it
  resolves to (accessToken, idToken, userinfoToken) or the error it throws.
\<close>

datatype callback_call =
  HandleCallbackRequest request string string string string stublogin_state

datatype client_token_set =
  ClientTokenSet (client_accessToken: string) (client_idToken: jwt_payload)
    (client_userinfoToken: jwt_payload)

text \<open>
  The result is the response or the error thrown (\<^verbatim>\<open>withSpan\<close> rethrows it), by the
  client or by \<^verbatim>\<open>redirect\<close>, the session as the route leaves it, and the calls made to
  the client.
\<close>

datatype 'e callback_error = ClientError 'e | RedirectError js_error

definition handleCallback ::
  "environment \<Rightarrow> (callback_call \<Rightarrow> 'e + client_token_set) \<Rightarrow> session \<Rightarrow> request
     \<Rightarrow> ('e callback_error + response) \<times> session \<times> callback_call list" where
  "handleCallback env handleCallbackRequest sess req =
     (case loginState sess of
        None \<Rightarrow> (Inr (JsonResponse (MessageJson ''Invalid login state'') BAD_REQUEST), sess, [])
      | Some ls \<Rightarrow>
          (let returnUrl = (case returnUrl ls of Some u \<Rightarrow> u | None \<Rightarrow> origin req @ ''/en'');
               opts = (if AUTH_ENABLE_STUB_LOGIN env
                       then (case stubloginState sess of
                               Some st \<Rightarrow> st
                             | None \<Rightarrow> \<lparr>birthdate = None, locale' = None, sin = None\<rparr>)
                       else \<lparr>birthdate = None, locale' = None, sin = None\<rparr>);
               call = HandleCallbackRequest req (codeVerifier ls) (nonce ls) (state ls)
                        (origin req @ ''/auth/callback'') opts
           in case handleCallbackRequest call of
                Inl err \<Rightarrow> (Inl (ClientError err), sess, [call])
              | Inr tokenSet \<Rightarrow>
                  (case redirect returnUrl of
                     Inl err \<Rightarrow> Inl (RedirectError err)
                   | Inr response \<Rightarrow> Inr response,
                   sess\<lparr>authState := Some (AuthState (client_accessToken tokenSet)
                                       (client_idToken tokenSet) (client_userinfoToken tokenSet)),
                        loginState := None, stubloginState := None\<rparr>,
                   [call])))"

section \<open>The specification's reading of the endpoints\<close>

text \<open>A parameter is present when it has a non-empty value.\<close>

definition present :: "string option \<Rightarrow> bool" where
  "present v = (v \<noteq> None \<and> v \<noteq> Some [])"

text \<open>A list of checks in order, each with its error code; the first that fails decides.\<close>

definition first_failing :: "(bool \<times> string) list \<Rightarrow> string option" where
  "first_failing checks = map_option snd (find (\<lambda>(ok, code). \<not> ok) checks)"

definition authorize_checks :: "environment \<Rightarrow> request \<Rightarrow> (bool \<times> string) list" where
  "authorize_checks env req =
     [(get_param (searchParams req) ''client_id'' = Some (AUTH_RAOIDC_CLIENT_ID env),
         ''invalid_client_id''),
      (present (get_param (searchParams req) ''nonce''), ''invalid_nonce''),
      (case get_param (searchParams req) ''redirect_uri'' of
         None \<Rightarrow> True
       | Some uri \<Rightarrow> uri = [] \<or> uri \<in> set (getAllowedCallbacks req), ''invalid_redirect_uri''),
      (present (get_param (searchParams req) ''scope''), ''invalid_scope''),
      (present (get_param (searchParams req) ''state''), ''invalid_state'')]"

definition token_checks :: "environment \<Rightarrow> request \<Rightarrow> (bool \<times> string) list" where
  "token_checks env req =
     [(get_param (formData req) ''client_assertion_type'' =
         Some ''urn:ietf:params:oauth:client-assertion-type:jwt-bearer'',
         ''invalid_client_assertion_type''),
      (get_param (formData req) ''client_id'' = Some (AUTH_RAOIDC_CLIENT_ID env), ''invalid_client''),
      (present (get_param (formData req) ''client_assertion''), ''invalid_client_assertion''),
      (present (get_param (formData req) ''code''), ''invalid_code''),
      (get_param (formData req) ''grant_type'' = Some ''authorization_code'', ''invalid_grant_type''),
      (case get_param (formData req) ''redirect_uri'' of
         None \<Rightarrow> True
       | Some uri \<Rightarrow> uri = [] \<or> uri \<in> set (getAllowedCallbacks req), ''invalid_redirect_uri'')]"



text \<open>The three setters of one token read the clock within the same second.\<close>

definition same_second :: "clock_reads \<Rightarrow> bool" where
  "same_second clk =
     (at_setExpirationTime clk = at_setIssuedAt clk \<and> at_setNotBefore clk = at_setIssuedAt clk)"

text \<open>The readings are in the order of the calls and at most \<open>d\<close> seconds apart.\<close>

definition reads_in_order_within :: "int \<Rightarrow> clock_reads \<Rightarrow> bool" where
  "reads_in_order_within d clk =
     (at_setExpirationTime clk \<le> at_setIssuedAt clk \<and> at_setIssuedAt clk \<le> at_setNotBefore clk \<and>
      at_setNotBefore clk \<le> at_setExpirationTime clk + d)"

text \<open>The claims as the setters write them from their clock readings and the environment.\<close>

definition claims_follow_clock :: "environment \<Rightarrow> clock_reads \<Rightarrow> jwt_payload \<Rightarrow> bool" where
  "claims_follow_clock env clk p =
     (exp p = Some (at_setExpirationTime clk + 20 * 60) \<and> iat p = Some (at_setIssuedAt clk) \<and>
      nbf p = Some (at_setNotBefore clk - 30) \<and>
      aud p = Some (AUTH_RAOIDC_CLIENT_ID env) \<and> iss p = Some (AUTH_RAOIDC_ISSUER env))"

text \<open>The validity window: \<open>nbf\<close> before \<open>exp\<close> and not after \<open>iat\<close>.\<close>

definition validity_window_ok :: "jwt_payload \<Rightarrow> bool" where
  "validity_window_ok p =
     (case (exp p, iat p, nbf p) of
        (Some e, Some i, Some n) \<Rightarrow> n < e \<and> n \<le> i
      | _ \<Rightarrow> False)"

text \<open>The invariant of the claims of a minted token, times in seconds.\<close>

definition minted_claims_ok :: "environment \<Rightarrow> jwt_payload \<Rightarrow> bool" where
  "minted_claims_ok env p =
     ((case (exp p, iat p, nbf p) of
        (Some e, Some i, Some n) \<Rightarrow> e = i + 20 * 60 \<and> n = i - 30 \<and> n < e \<and> n \<le> i
      | _ \<Rightarrow> False) \<and>
      aud p = Some (AUTH_RAOIDC_CLIENT_ID env) \<and> iss p = Some (AUTH_RAOIDC_ISSUER env))"

section \<open>The token codec of the specification\<close>

datatype purpose = AccessToken | IdToken | UserinfoToken

text \<open>The public key each purpose is encrypted for.\<close>

fun encryption_target :: "environment \<Rightarrow> purpose \<Rightarrow> rsa_key" where
  "encryption_target env AccessToken = AUTH_SERVER_PUBLIC_KEY env"
| "encryption_target env IdToken = AUTH_CLIENT_PUBLIC_KEY env"
| "encryption_target env UserinfoToken = AUTH_CLIENT_PUBLIC_KEY env"

text \<open>
  The contract \<^verbatim>\<open>sign_and_encrypt(claims, purpose)\<close> in the specification's words: sign
  with the issuer's private signing key under the key id of its public key, then encrypt
  for the purpose's key.
\<close>

definition sign_and_encrypt :: "environment \<Rightarrow> jwt_payload \<Rightarrow> purpose \<Rightarrow> compact_jwe" where
  "sign_and_encrypt env claims p =
     CompactJwe (JweHeader ''RSA-OAEP-256'' ''A256GCM'') (encryption_target env p)
       (SignedJwt (Some (JwsHeader ''RS256'' (Md5Hex (AUTH_SERVER_PUBLIC_KEY env)))) claims
          (AUTH_SERVER_PRIVATE_KEY env))"

text \<open>A private key and the public key of the same pair.\<close>

fun key_pair :: "rsa_key \<Rightarrow> rsa_key \<Rightarrow> bool" where
  "key_pair (PrivateKey a) (PublicKey b) = (a = b)"
| "key_pair _ _ = False"

datatype codec_failure = InvalidToken

text \<open>
  Modelled from the spec: \<^verbatim>\<open>decrypt_and_verify(token, expected_purpose)\<close> belongs to the
  relying-party client (\<^verbatim>\<open>~/.server/auth/raoidc-client\<close>), which is not among the sources.
  By the specification it fails on a decryption failure (wrong key), on a signature
  mismatch, and on claims that are expired (\<open>exp\<close> in the past) or not yet valid (\<open>nbf\<close> in
  the future), each surfaced as the one invalid-token outcome; otherwise it returns the
  claims. The holder's private key for each purpose, the issuer's public signing key and
  the current time in seconds are arguments.
\<close>

definition compactDecrypt :: "rsa_key \<Rightarrow> compact_jwe \<Rightarrow> signed_jwt option" where
  "compactDecrypt private_key token =
     (if key_pair private_key (encrypted_for token) then Some (plaintext token) else None)"

definition expired :: "int \<Rightarrow> jwt_payload \<Rightarrow> bool" where
  "expired now claims = (case exp claims of None \<Rightarrow> False | Some e \<Rightarrow> e < now)"

definition not_yet_valid :: "int \<Rightarrow> jwt_payload \<Rightarrow> bool" where
  "not_yet_valid now claims = (case nbf claims of None \<Rightarrow> False | Some n \<Rightarrow> now < n)"

definition jwtVerify :: "rsa_key \<Rightarrow> int \<Rightarrow> signed_jwt \<Rightarrow> jwt_payload option" where
  "jwtVerify public_key now jws =
     (if \<not> key_pair (signed_with jws) public_key then None
      else if expired now (jws_payload jws) then None
      else if not_yet_valid now (jws_payload jws) then None
      else Some (jws_payload jws))"

definition decrypt_and_verify ::
  "(purpose \<Rightarrow> rsa_key) \<Rightarrow> rsa_key \<Rightarrow> int \<Rightarrow> compact_jwe \<Rightarrow> purpose \<Rightarrow> codec_failure + jwt_payload" where
  "decrypt_and_verify private_key_for issuer_key now token expected_purpose =
     (case compactDecrypt (private_key_for expected_purpose) token of
        None \<Rightarrow> Inl InvalidToken
      | Some jws \<Rightarrow>
          (case jwtVerify issuer_key now jws of
             None \<Rightarrow> Inl InvalidToken
           | Some claims \<Rightarrow> Inr claims))"

section \<open>Example inputs\<close>

definition example_env :: environment where
  "example_env =
     \<lparr>AUTH_ENABLE_STUB_LOGIN = True,
      AUTH_RAOIDC_CLIENT_ID = ''00000000-0000-0000-0000-000000000000'',
      AUTH_RAOIDC_ISSUER = ''MOCK_RAOIDC'',
      AUTH_SERVER_PUBLIC_KEY = PublicKey 1,
      AUTH_SERVER_PRIVATE_KEY = PrivateKey 1,
      AUTH_CLIENT_PUBLIC_KEY = PublicKey 2\<rparr>"

definition example_clock :: clock_reads where
  "example_clock =
     \<lparr>at_setExpirationTime = 1700000000, at_setIssuedAt = 1700000000,
      at_setNotBefore = 1700000000\<rparr>"

definition example_effects :: authorize_effects where
  "example_effects =
     \<lparr>random = (\<lambda>i. CHR ''a''), access_clock = example_clock, id_clock = example_clock\<rparr>"

definition example_code :: string where
  "example_code = ''aaaaaaaaaaaaaaaaaaaaaaaaaaaaaaaa''"

text \<open>The authorize request of the specification's end-to-end scenario.\<close>

definition example_authorize :: request where
  "example_authorize =
     \<lparr>origin = ''https://app.example'',
      searchParams =
        [(''client_id'', ''00000000-0000-0000-0000-000000000000''), (''nonce'', ''n1''),
         (''redirect_uri'', ''https://app.example/auth/callback''), (''scope'', ''openid''),
         (''state'', ''s1'')],
      formData = []\<rparr>"




text \<open>Clock readings that cross two second boundaries while one token is built.\<close>

definition skewed_clock :: clock_reads where
  "skewed_clock =
     \<lparr>at_setExpirationTime = 1700000000, at_setIssuedAt = 1700000001,
      at_setNotBefore = 1700000002\<rparr>"

text \<open>A request with the wrong client and no nonce: the first check decides.\<close>

definition authorize_wrong_client :: request where
  "authorize_wrong_client =
     \<lparr>origin = ''https://app.example'',
      searchParams = [(''client_id'', ''WRONG''), (''scope'', ''openid''), (''state'', ''s1'')],
      formData = []\<rparr>"

definition example_token_request :: request where
  "example_token_request =
     \<lparr>origin = ''https://app.example'',
      searchParams = [],
      formData =
        [(''grant_type'', ''authorization_code''),
         (''code'', ''aaaaaaaaaaaaaaaaaaaaaaaaaaaaaaaa''),
         (''redirect_uri'', ''https://app.example/auth/callback''),
         (''client_id'', ''00000000-0000-0000-0000-000000000000''),
         (''client_assertion'', ''assertion''),
         (''client_assertion_type'', ''urn:ietf:params:oauth:client-assertion-type:jwt-bearer'')]\<rparr>"

definition example_token_set :: token_set where
  "example_token_set =
     \<lparr>accessToken = generateAccessToken example_env example_clock ''n1'',
      idToken = generateIdToken example_env example_clock ''en-CA'' ''n1''\<rparr>"

text \<open>A token request with the wrong grant type and no code: the earlier check decides.\<close>

definition token_request_no_code :: request where
  "token_request_no_code =
     \<lparr>origin = ''https://app.example'',
      searchParams = [],
      formData =
        [(''grant_type'', ''password''),
         (''client_id'', ''00000000-0000-0000-0000-000000000000''),
         (''client_assertion'', ''assertion''),
         (''client_assertion_type'', ''urn:ietf:params:oauth:client-assertion-type:jwt-bearer'')]\<rparr>"

definition anonymous_session :: session where
  "anonymous_session =
     \<lparr>authState = None, letterState = None, loginState = None, stubloginState = None\<rparr>"

definition callback_request :: request where
  "callback_request =
     \<lparr>origin = ''https://app.example'',
      searchParams = [(''code'', ''aaaaaaaaaaaaaaaaaaaaaaaaaaaaaaaa''), (''state'', ''s1'')],
      formData = []\<rparr>"

text \<open>A client that fails every exchange.\<close>

definition failing_client :: "callback_call \<Rightarrow> string + client_token_set" where
  "failing_client call = Inl ''AUTH-0003''"

text \<open>The relying party holds the private key of pair 2, the provider that of pair 1.\<close>

fun example_private_keys :: "purpose \<Rightarrow> rsa_key" where
  "example_private_keys AccessToken = PrivateKey 1"
| "example_private_keys IdToken = PrivateKey 2"
| "example_private_keys UserinfoToken = PrivateKey 2"

definition example_claims :: jwt_payload where
  "example_claims =
     \<lparr>aud = Some ''00000000-0000-0000-0000-000000000000'', exp = Some 1700001200,
      iat = Some 1700000000, iss = Some ''MOCK_RAOIDC'',
      jti = Some ''00000000-0000-0000-0000-000000000000'', nbf = Some 1699999970,
      sub = Some ''00000000-0000-0000-0000-000000000000'',
      custom = [(''locale'', ''en-CA''), (''nonce'', ''n1'')]\<rparr>"

section \<open>Properties of the endpoints\<close>

lemma truthy_present: "truthy v = present v"
  by (cases v) (simp_all add: truthy_def present_def)

lemma js_string_simps: "js_string (Some x) = x" "js_string None = ''null''"
  by (simp_all add: js_string_def)

lemma first_failing_Cons:
  "first_failing ((ok, code) # cs) = (if ok then first_failing cs else Some code)"
  by (simp add: first_failing_def)

lemma first_failing_Nil: "first_failing [] = None"
  by (simp add: first_failing_def)

lemma uri_check:
  "(present v \<and> js_string v \<notin> set A) =
   (\<not> (case v of None \<Rightarrow> True | Some uri \<Rightarrow> uri = [] \<or> uri \<in> set A))"
  by (cases v) (simp_all add: present_def js_string_def)



lemma constant_draw: "randomString 32 (\<lambda>i. CHR ''a'') = ''aaaaaaaaaaaaaaaaaaaaaaaaaaaaaaaa''"
  by code_simp

lemma redirect_kept:
  assumes "normalize_header_value url = url" and "valid_header_value url"
  shows "redirect url = Inr (RedirectResponse url 302)"
  using assms by (simp add: redirect_def)

lemma redirect_cases:
  "redirect url = Inl TypeError \<or> (\<exists>location. redirect url = Inr (RedirectResponse location 302))"
  by (simp add: redirect_def Let_def)

lemma handleAuthorizeRequest_failure:
  assumes "first_failing (authorize_checks env req) = Some code"
  shows "handleAuthorizeRequest env eff now req s = (Inr (JsonResponse (ErrorJson code) 400), s)"
  using assms
  by (simp add: handleAuthorizeRequest_def authorize_checks_def first_failing_Cons first_failing_Nil
      uri_check truthy_present Let_def BAD_REQUEST_def split: if_splits)

lemma handleAuthorizeRequest_success:
  assumes "first_failing (authorize_checks env req) = None"
  shows "\<exists>n st. get_param (searchParams req) ''nonce'' = Some n \<and>
           get_param (searchParams req) ''state'' = Some st \<and>
           handleAuthorizeRequest env eff now req s =
             (redirect
                (js_string (get_param (searchParams req) ''redirect_uri'') @ ''?code='' @
                   randomString 32 (random eff) @ ''&state='' @ st),
              s\<lparr>tokenCache := (tokenCache s)(randomString 32 (random eff) \<mapsto>
                   \<lparr>accessToken = generateAccessToken env (access_clock eff) n,
                    idToken = generateIdToken env (id_clock eff) ''en-CA'' n\<rparr>),
                timers := timers s @ [(now + 30000, randomString 32 (random eff))]\<rparr>)"
  using assms
  by (auto simp add: handleAuthorizeRequest_def authorize_checks_def first_failing_Cons
      first_failing_Nil uri_check truthy_present Let_def js_string_simps
      setTimeout_delete_def present_def split: if_splits)

lemma example_authorize_passes: "first_failing (authorize_checks example_env example_authorize) = None"
  by (simp add: authorize_checks_def first_failing_Cons first_failing_Nil example_env_def
      example_authorize_def get_param_def present_def getAllowedCallbacks_def ALLOWED_CALLBACKS_def)

lemma authorize_wrong_client_fails:
  "first_failing (authorize_checks example_env authorize_wrong_client) = Some ''invalid_client_id''"
  by (simp add: authorize_checks_def first_failing_Cons first_failing_Nil example_env_def
      authorize_wrong_client_def get_param_def present_def getAllowedCallbacks_def ALLOWED_CALLBACKS_def)

lemma example_authorize_params:
  "get_param (searchParams example_authorize) ''nonce'' = Some ''n1''"
  "get_param (searchParams example_authorize) ''state'' = Some ''s1''"
  "get_param (searchParams example_authorize) ''redirect_uri'' = Some ''https://app.example/auth/callback''"
  by (simp_all add: example_authorize_def get_param_def)

lemma example_target_kept:
  "normalize_header_value
     ''https://app.example/auth/callback?code=aaaaaaaaaaaaaaaaaaaaaaaaaaaaaaaa&state=s1'' =
     ''https://app.example/auth/callback?code=aaaaaaaaaaaaaaaaaaaaaaaaaaaaaaaa&state=s1''"
  "valid_header_value
     ''https://app.example/auth/callback?code=aaaaaaaaaaaaaaaaaaaaaaaaaaaaaaaa&state=s1''"
  by (simp_all add: normalize_header_value_def valid_header_value_def http_whitespace_def)


lemma run_timers_initial: "run_timers t initial_state = initial_state"
  by (simp add: run_timers_def initial_state_def)

lemma example_issue:
  "handleAuthorizeRequest example_env example_effects 0 example_authorize initial_state =
     (Inr (RedirectResponse
        ''https://app.example/auth/callback?code=aaaaaaaaaaaaaaaaaaaaaaaaaaaaaaaa&state=s1'' 302),
      \<lparr>tokenCache = [example_code \<mapsto> example_token_set], timers = [(30000, example_code)]\<rparr>)"
  using handleAuthorizeRequest_success [OF example_authorize_passes,
      of example_effects 0 initial_state]
  by (simp add: example_authorize_params constant_draw js_string_simps
      redirect_kept [OF example_target_kept]
      initial_state_def example_token_set_def example_effects_def example_code_def)

text \<open>
  C3. A GET /authorize request is checked in this order: client_id equals the configured
  client identifier, nonce is present, redirect_uri (if supplied) is in the allow-list of
  the request's origin, scope is present, state is present. The first check that fails
  decides: the response is a 400 with body \<open>{error: code}\<close> for that check's code, and the
  cache and its timers are as before, so no code was issued. When no check fails the
  handler goes on to \<^verbatim>\<open>redirect\<close>, which gives a 302 or throws.
\<close>

theorem authorize_fails_fast_in_order:
  "case first_failing (authorize_checks env req) of
     Some code \<Rightarrow>
       handleAuthorizeRequest env eff now req s = (Inr (JsonResponse (ErrorJson code) 400), s)
   | None \<Rightarrow>
       fst (handleAuthorizeRequest env eff now req s) = Inl TypeError \<or>
       (\<exists>url. fst (handleAuthorizeRequest env eff now req s) = Inr (RedirectResponse url 302))"
proof (cases "first_failing (authorize_checks env req)")
  case None
  from handleAuthorizeRequest_success [OF None, of eff now s] obtain target s1
    where "handleAuthorizeRequest env eff now req s = (redirect target, s1)"
    by blast
  with redirect_cases [of target] show ?thesis
    using None by auto
next
  case (Some code)
  from handleAuthorizeRequest_failure [OF Some] show ?thesis
    using Some by simp
qed

theorem authorize_fails_fast_in_order_witness:
  "handleAuthorizeRequest example_env example_effects 0 authorize_wrong_client initial_state =
     (Inr (JsonResponse (ErrorJson ''invalid_client_id'') 400), initial_state) \<and>
   (\<exists>url. fst (handleAuthorizeRequest example_env example_effects 0 example_authorize initial_state) =
       Inr (RedirectResponse url 302))"
  using authorize_fails_fast_in_order [where env = example_env and req = authorize_wrong_client
      and eff = example_effects and now = 0 and s = initial_state]
    authorize_fails_fast_in_order [where env = example_env and req = example_authorize
      and eff = example_effects and now = 0 and s = initial_state]
  by (simp add: authorize_wrong_client_fails example_authorize_passes example_issue)

lemma handleTokenRequest_failure:
  assumes "first_failing (token_checks env req) = Some code"
  shows "handleTokenRequest env now req s = (JsonResponse (ErrorJson code) 400, s)"
  using assms
  by (simp add: handleTokenRequest_def token_checks_def first_failing_Cons first_failing_Nil
      uri_check truthy_present Let_def BAD_REQUEST_def split: if_splits)

lemma handleTokenRequest_checked:
  assumes "first_failing (token_checks env req) = None"
    and "get_param (formData req) ''code'' = Some c"
  shows "handleTokenRequest env now req s =
     (case tokenCache s c of
        None \<Rightarrow> JsonResponse (ErrorJson ''invalid_auth_code'') 400
      | Some ts \<Rightarrow> JsonResponse (TokenJson \<lparr>token_type = ''Bearer'', access_token = accessToken ts,
                                 id_token = idToken ts, expires_in = 300\<rparr>) 200,
      s\<lparr>timers := timers s @ [(now + 30000, c)]\<rparr>)"
  using assms
  by (simp add: handleTokenRequest_def token_checks_def first_failing_Cons first_failing_Nil
      uri_check truthy_present Let_def Response_json_def js_string_simps BAD_REQUEST_def
      setTimeout_delete_def split: if_splits option.splits)

lemma example_token_request_passes:
  "first_failing (token_checks example_env example_token_request) = None"
  by (simp add: token_checks_def first_failing_Cons first_failing_Nil example_env_def
      example_token_request_def get_param_def present_def getAllowedCallbacks_def ALLOWED_CALLBACKS_def)

lemma example_token_request_code:
  "get_param (formData example_token_request) ''code'' = Some example_code"
  by (simp add: example_token_request_def get_param_def example_code_def)

lemma token_request_no_code_fails:
  "first_failing (token_checks example_env token_request_no_code) = Some ''invalid_code''"
  by (simp add: token_checks_def first_failing_Cons first_failing_Nil example_env_def
      token_request_no_code_def get_param_def present_def getAllowedCallbacks_def ALLOWED_CALLBACKS_def)

text \<open>
  C4. A POST /token request is checked in this order: client_assertion_type equals the
  JWT-bearer constant, client_id equals the configured client identifier, client_assertion
  is present, code is present, grant_type equals authorization_code, redirect_uri (if
  supplied) is in the allow-list. The first check that fails gives a 400 with body
  \<open>{error: code}\<close> and leaves the state as it was. When every check passes and the cache
  holds the code, the response is a 200 whose body has token_type Bearer, the cached
  access_token and id_token, and expires_in 300.
\<close>

theorem token_fails_fast_or_returns_cached_tokens:
  "(first_failing (token_checks env req) = Some code \<longrightarrow>
      handleTokenRequest env now req s = (JsonResponse (ErrorJson code) 400, s)) \<and>
   (first_failing (token_checks env req) = None \<longrightarrow>
      get_param (formData req) ''code'' = Some c \<longrightarrow> tokenCache s c = Some ts \<longrightarrow>
      fst (handleTokenRequest env now req s) =
        JsonResponse (TokenJson \<lparr>token_type = ''Bearer'', access_token = accessToken ts,
                                 id_token = idToken ts, expires_in = 300\<rparr>) 200)"
proof (intro conjI impI)
  assume "first_failing (token_checks env req) = Some code"
  then show "handleTokenRequest env now req s = (JsonResponse (ErrorJson code) 400, s)"
    by (rule handleTokenRequest_failure)
next
  assume "first_failing (token_checks env req) = None"
    and "get_param (formData req) ''code'' = Some c" and "tokenCache s c = Some ts"
  then show "fst (handleTokenRequest env now req s) =
        JsonResponse (TokenJson \<lparr>token_type = ''Bearer'', access_token = accessToken ts,
                                 id_token = idToken ts, expires_in = 300\<rparr>) 200"
    by (simp add: handleTokenRequest_checked)
qed

theorem token_fails_fast_or_returns_cached_tokens_witness:
  "handleTokenRequest example_env 0 token_request_no_code initial_state =
     (JsonResponse (ErrorJson ''invalid_code'') 400, initial_state) \<and>
   fst (handleTokenRequest example_env 0 example_token_request
          (initial_state\<lparr>tokenCache := [example_code \<mapsto> example_token_set]\<rparr>)) =
     JsonResponse (TokenJson \<lparr>token_type = ''Bearer'', access_token = accessToken example_token_set,
                              id_token = idToken example_token_set, expires_in = 300\<rparr>) 200"
  using token_fails_fast_or_returns_cached_tokens [where env = example_env
      and req = token_request_no_code and code = "''invalid_code''" and now = 0 and s = initial_state]
    token_fails_fast_or_returns_cached_tokens [where env = example_env
      and req = example_token_request and now = 0 and c = example_code and ts = example_token_set
      and s = "initial_state\<lparr>tokenCache := [example_code \<mapsto> example_token_set]\<rparr>"]
  by (simp add: token_request_no_code_fails example_token_request_passes example_token_request_code)















section \<open>Properties of the minted tokens\<close>

lemmas builder_defs =
  new_SignJWT_def setProtectedHeader_def setAudience_def setExpirationTime_def setIssuedAt_def
  setIssuer_def setJti_def setNotBefore_def setSubject_def sign_def compactEncrypt_def
  generatePublicKeyId_def secs_20m_def secs_30s_ago_def

lemma generateAccessToken_codec:
  "generateAccessToken env clk n =
     sign_and_encrypt env
       \<lparr>aud = Some (AUTH_RAOIDC_CLIENT_ID env), exp = Some (at_setExpirationTime clk + 1200),
        iat = Some (at_setIssuedAt clk), iss = Some (AUTH_RAOIDC_ISSUER env),
        jti = Some ''00000000-0000-0000-0000-000000000000'',
        nbf = Some (at_setNotBefore clk - 30),
        sub = Some ''00000000-0000-0000-0000-000000000000'', custom = []\<rparr>
       AccessToken"
  by (simp add: generateAccessToken_def sign_and_encrypt_def builder_defs)

lemma generateIdToken_codec:
  "generateIdToken env clk loc n =
     sign_and_encrypt env
       \<lparr>aud = Some (AUTH_RAOIDC_CLIENT_ID env), exp = Some (at_setExpirationTime clk + 1200),
        iat = Some (at_setIssuedAt clk), iss = Some (AUTH_RAOIDC_ISSUER env),
        jti = Some ''00000000-0000-0000-0000-000000000000'',
        nbf = Some (at_setNotBefore clk - 30),
        sub = Some ''00000000-0000-0000-0000-000000000000'',
        custom = [(''locale'', loc), (''nonce'', n)]\<rparr>
       IdToken"
  by (simp add: generateIdToken_def sign_and_encrypt_def builder_defs)

lemma generateUserinfoToken_codec:
  "generateUserinfoToken env clk b loc sn =
     sign_and_encrypt env
       \<lparr>aud = Some (AUTH_RAOIDC_CLIENT_ID env), exp = Some (at_setExpirationTime clk + 1200),
        iat = Some (at_setIssuedAt clk), iss = Some (AUTH_RAOIDC_ISSUER env),
        jti = Some ''00000000-0000-0000-0000-000000000000'',
        nbf = Some (at_setNotBefore clk - 30),
        sub = Some ''00000000-0000-0000-0000-000000000000'',
        custom = [(''birthdate'', b), (''locale'', loc), (''sin'', sn)]\<rparr>
       UserinfoToken"
  by (simp add: generateUserinfoToken_def sign_and_encrypt_def builder_defs)

lemmas generate_codec = generateAccessToken_codec generateIdToken_codec generateUserinfoToken_codec

lemma same_second_example: "same_second example_clock"
  by (simp add: same_second_def example_clock_def)

lemma skewed_clock_in_order: "reads_in_order_within 30 skewed_clock"
  by (simp add: reads_in_order_within_def skewed_clock_def)

text \<open>
  C6, as stated, fails: with the clock read at 1700000000, 1700000001 and 1700000002 by
  the three setters, the access token has exp equal to iat plus 1199 seconds and nbf equal
  to iat minus 29 seconds.
\<close>

theorem minted_claims_skewed_clock_counterexample:
  "exp (jws_payload (plaintext (generateAccessToken example_env skewed_clock ''n1''))) =
     Some 1700001200 \<and>
   iat (jws_payload (plaintext (generateAccessToken example_env skewed_clock ''n1''))) =
     Some 1700000001 \<and>
   nbf (jws_payload (plaintext (generateAccessToken example_env skewed_clock ''n1''))) =
     Some 1699999972 \<and>
   \<not> minted_claims_ok example_env
       (jws_payload (plaintext (generateAccessToken example_env skewed_clock ''n1'')))"
  by (simp add: generate_codec sign_and_encrypt_def minted_claims_ok_def skewed_clock_def)

text \<open>
  C6, amended. In the claims of every minted token (access, id and userinfo), exp is the
  clock as read by setExpirationTime plus 20 minutes, iat the clock as read by setIssuedAt,
  nbf the clock as read by setNotBefore minus 30 seconds, aud the configured client
  identifier and iss the configured issuer. When the three readings are in the order of
  the calls and at most 30 seconds apart, nbf is before exp and not after iat. When they
  fall in the same second, exp equals iat plus 20 minutes and nbf equals iat minus 30
  seconds.
\<close>

theorem minted_claims_invariant:
  "claims_follow_clock env clk (jws_payload (plaintext (generateAccessToken env clk n))) \<and>
   claims_follow_clock env clk (jws_payload (plaintext (generateIdToken env clk loc n))) \<and>
   claims_follow_clock env clk (jws_payload (plaintext (generateUserinfoToken env clk b loc sn))) \<and>
   (reads_in_order_within 30 clk \<longrightarrow>
      validity_window_ok (jws_payload (plaintext (generateAccessToken env clk n))) \<and>
      validity_window_ok (jws_payload (plaintext (generateIdToken env clk loc n))) \<and>
      validity_window_ok (jws_payload (plaintext (generateUserinfoToken env clk b loc sn)))) \<and>
   (same_second clk \<longrightarrow>
      minted_claims_ok env (jws_payload (plaintext (generateAccessToken env clk n))) \<and>
      minted_claims_ok env (jws_payload (plaintext (generateIdToken env clk loc n))) \<and>
      minted_claims_ok env (jws_payload (plaintext (generateUserinfoToken env clk b loc sn))))"
  by (simp add: generate_codec sign_and_encrypt_def claims_follow_clock_def
      reads_in_order_within_def validity_window_ok_def minted_claims_ok_def same_second_def)

theorem minted_claims_invariant_witness:
  "claims_follow_clock example_env skewed_clock
     (jws_payload (plaintext (generateAccessToken example_env skewed_clock ''n1''))) \<and>
   validity_window_ok
     (jws_payload (plaintext (generateAccessToken example_env skewed_clock ''n1''))) \<and>
   validity_window_ok
     (jws_payload (plaintext (generateIdToken example_env skewed_clock ''en-CA'' ''n1''))) \<and>
   validity_window_ok
     (jws_payload (plaintext (generateUserinfoToken example_env skewed_clock ''2000-01-01''
        ''en-CA'' ''00000000''))) \<and>
   minted_claims_ok example_env
     (jws_payload (plaintext (generateAccessToken example_env example_clock ''n1''))) \<and>
   minted_claims_ok example_env
     (jws_payload (plaintext (generateIdToken example_env example_clock ''en-CA'' ''n1''))) \<and>
   minted_claims_ok example_env
     (jws_payload (plaintext (generateUserinfoToken example_env example_clock ''2000-01-01''
        ''en-CA'' ''00000000''))) \<and>
   exp (jws_payload (plaintext (generateIdToken example_env example_clock ''en-CA'' ''n1''))) =
     Some 1700001200 \<and>
   nbf (jws_payload (plaintext (generateIdToken example_env example_clock ''en-CA'' ''n1''))) =
     Some 1699999970"
  using minted_claims_invariant [of example_env skewed_clock "''n1''" "''en-CA''"
      "''2000-01-01''" "''00000000''"]
    minted_claims_invariant [of example_env example_clock "''n1''" "''en-CA''"
      "''2000-01-01''" "''00000000''"]
  by (simp add: same_second_example skewed_clock_in_order)
     (simp add: generate_codec sign_and_encrypt_def example_clock_def)

text \<open>
  C7. The access token is encrypted for the provider's own public key, the id token and
  the userinfo token for the client's public key, and in all three the plaintext that is
  encrypted is the JWT signed with the provider's private key.
\<close>

theorem encryption_key_by_purpose:
  "encrypted_for (generateAccessToken env clk n) = AUTH_SERVER_PUBLIC_KEY env \<and>
   encrypted_for (generateIdToken env clk loc n) = AUTH_CLIENT_PUBLIC_KEY env \<and>
   encrypted_for (generateUserinfoToken env clk b loc sn) = AUTH_CLIENT_PUBLIC_KEY env \<and>
   signed_with (plaintext (generateAccessToken env clk n)) = AUTH_SERVER_PRIVATE_KEY env \<and>
   signed_with (plaintext (generateIdToken env clk loc n)) = AUTH_SERVER_PRIVATE_KEY env \<and>
   signed_with (plaintext (generateUserinfoToken env clk b loc sn)) = AUTH_SERVER_PRIVATE_KEY env"
  by (simp add: generate_codec sign_and_encrypt_def)

section \<open>Properties of the token codec\<close>

lemma decrypt_and_verify_wrong_key:
  assumes "\<not> key_pair (keys p) (encrypted_for token)"
  shows "decrypt_and_verify keys issuer_key now token p = Inl InvalidToken"
  using assms by (simp add: decrypt_and_verify_def compactDecrypt_def)

lemma decrypt_and_verify_sign_and_encrypt:
  assumes "key_pair (keys p) (encryption_target env p)"
    and "key_pair (AUTH_SERVER_PRIVATE_KEY env) issuer_key"
    and "\<not> expired now claims" and "\<not> not_yet_valid now claims"
  shows "decrypt_and_verify keys issuer_key now (sign_and_encrypt env claims p) p = Inr claims"
  using assms
  by (simp add: decrypt_and_verify_def compactDecrypt_def jwtVerify_def sign_and_encrypt_def)

text \<open>
  C8. With the private key that pairs with the purpose's encryption key, the issuer's
  public signing key, and claims that are neither expired nor not yet valid,
  \<open>decrypt_and_verify\<close> of \<open>sign_and_encrypt\<close> returns the claims it was given; with a
  private key that does not pair with the key a token was encrypted for it fails.
\<close>

theorem codec_round_trip:
  "(key_pair (keys p) (encryption_target env p) \<and>
    key_pair (AUTH_SERVER_PRIVATE_KEY env) issuer_key \<and>
    \<not> expired now claims \<and> \<not> not_yet_valid now claims \<longrightarrow>
      decrypt_and_verify keys issuer_key now (sign_and_encrypt env claims p) p = Inr claims) \<and>
   (\<not> key_pair (keys p) (encrypted_for token) \<longrightarrow>
      decrypt_and_verify keys issuer_key now token p = Inl InvalidToken)"
  by (simp add: decrypt_and_verify_wrong_key decrypt_and_verify_sign_and_encrypt)

theorem codec_round_trip_witness:
  "decrypt_and_verify example_private_keys (PublicKey 1) 1700000000
     (generateIdToken example_env example_clock ''en-CA'' ''n1'') IdToken = Inr example_claims \<and>
   decrypt_and_verify (\<lambda>p. PrivateKey 1) (PublicKey 1) 1700000000
     (generateIdToken example_env example_clock ''en-CA'' ''n1'') IdToken = Inl InvalidToken"
  using codec_round_trip [where keys = example_private_keys and p = IdToken and env = example_env
      and issuer_key = "PublicKey 1" and now = 1700000000 and claims = example_claims
      and token = "generateIdToken example_env example_clock ''en-CA'' ''n1''"]
    codec_round_trip [where keys = "\<lambda>p. PrivateKey 1" and p = IdToken and env = example_env
      and issuer_key = "PublicKey 1" and now = 1700000000 and claims = example_claims
      and token = "generateIdToken example_env example_clock ''en-CA'' ''n1''"]
  by (simp add: generateIdToken_codec example_claims_def example_env_def example_clock_def
      expired_def not_yet_valid_def sign_and_encrypt_def)

section \<open>Properties of the callback route\<close>

text \<open>
  C10. When the session holds no login state, the callback route answers 400 with body
  \<open>{message: "Invalid login state"}\<close>, makes no call to the client, so exchanges no
  token, and leaves the session as it was, so no auth state is created.
\<close>

theorem callback_without_login_state:
  assumes "loginState sess = None"
  shows "handleCallback env handleCallbackRequest sess req =
           (Inr (JsonResponse (MessageJson ''Invalid login state'') 400), sess, [])"
  using assms by (simp add: handleCallback_def BAD_REQUEST_def)

theorem callback_without_login_state_witness:
  "handleCallback example_env failing_client anonymous_session callback_request =
     (Inr (JsonResponse (MessageJson ''Invalid login state'') 400), anonymous_session, []) \<and>
   authState anonymous_session = None"
  using callback_without_login_state [of anonymous_session example_env failing_client callback_request]
  by (simp add: anonymous_session_def)

section \<open>Properties of the cache over time\<close>















lemma example_exchange:
  assumes "tokenCache s example_code = Some example_token_set"
  shows "handleTokenRequest example_env now example_token_request s =
           (JsonResponse (TokenJson \<lparr>token_type = ''Bearer'',
              access_token = accessToken example_token_set,
              id_token = idToken example_token_set, expires_in = 300\<rparr>) 200,
            s\<lparr>timers := timers s @ [(now + 30000, example_code)]\<rparr>)"
  using assms
  by (simp add: handleTokenRequest_checked [OF example_token_request_passes example_token_request_code])




lemma example_issue_state:
  "deliver example_env (GetAuthorize 0 example_effects example_authorize) initial_state =
     (Inr (RedirectResponse
        ''https://app.example/auth/callback?code=aaaaaaaaaaaaaaaaaaaaaaaaaaaaaaaa&state=s1'' 302),
      \<lparr>tokenCache = [example_code \<mapsto> example_token_set], timers = [(30000, example_code)]\<rparr>)"
  by (simp add: run_timers_initial example_issue)


text \<open>
  C1. The claim is that an authorization code is single-use: a second POST /token with
  the same code returns invalid_auth_code, also within the 30 seconds. The handler reads
  the entry and only schedules its deletion 30 seconds later, so in this run (a code
  issued at 0 ms, exchanged at 1000 ms and again at 2000 ms) the second exchange returns
  the same tokens with status 200.
\<close>

theorem second_exchange_within_ttl_succeeds:
  "fst (serve example_env
          [GetAuthorize 0 example_effects example_authorize,
           PostToken 1000 example_token_request,
           PostToken 2000 example_token_request] initial_state) =
     [Inr (RedirectResponse
        ''https://app.example/auth/callback?code=aaaaaaaaaaaaaaaaaaaaaaaaaaaaaaaa&state=s1'' 302),
      Inr (JsonResponse (TokenJson \<lparr>token_type = ''Bearer'',
        access_token = accessToken example_token_set,
        id_token = idToken example_token_set, expires_in = 300\<rparr>) 200),
      Inr (JsonResponse (TokenJson \<lparr>token_type = ''Bearer'',
        access_token = accessToken example_token_set,
        id_token = idToken example_token_set, expires_in = 300\<rparr>) 200)]"
proof -
  let ?issued = "\<lparr>tokenCache = [example_code \<mapsto> example_token_set],
                   timers = [(30000, example_code)]\<rparr>"
  let ?once = "\<lparr>tokenCache = [example_code \<mapsto> example_token_set],
                 timers = [(30000, example_code), (31000, example_code)]\<rparr>"
  let ?tokens = "Inr (JsonResponse (TokenJson \<lparr>token_type = ''Bearer'',
        access_token = accessToken example_token_set,
        id_token = idToken example_token_set, expires_in = 300\<rparr>) 200) :: js_error + response"
  have early: "run_timers 1000 ?issued = ?issued" "run_timers 2000 ?once = ?once"
    by (simp_all add: run_timers_def)
  have first: "deliver example_env (PostToken 1000 example_token_request) ?issued = (?tokens, ?once)"
    by (simp add: early example_exchange)
  have second: "fst (deliver example_env (PostToken 2000 example_token_request) ?once) = ?tokens"
    by (simp add: early example_exchange)
  show ?thesis
    by (simp add: example_issue_state first second split_beta del: deliver.simps)
qed

end
